theory Spec2Isabelle
  imports Complex_Main
begin

section \<open>SearchBar: the animated search field of src/components/SearchBar.tsx\<close>

text \<open>
  The component is a function of its props that creates three shared values
  (\<open>containerWidth\<close>, \<open>cancelButtonWidth\<close>, \<open>isFocused\<close>), a reference to the text
  field, a set of event handlers and two derived styles. The embedding keeps that shape:
  \<^item> the props are a record; an optional callback is a flag saying whether the host
    passed it (the host's function bodies are outside the component);
  \<^item> the mutable cells are the fields of a state record, which every handler takes and
    returns;
  \<^item> what a handler does to the outside (calling a host callback, calling a method of
    the text field, starting an animation) is appended to the field \<open>effects\<close>, in the
    order in which the statements of the handler run;
  \<^item> calling a value that is not a function raises a \<open>TypeError\<close> in JavaScript, so a
    handler returns \<open>error + SearchBarState\<close>;
  \<^item> JavaScript numbers are modelled as real numbers: rounding and \<open>NaN\<close> are left
    out, widths and time are exact.
\<close>

subsection \<open>Props (lines 22-46)\<close>

text \<open>
  \<open>onChangeText\<close> is required by the type \<open>SearchBarProps\<close>, so it is always a function
  and has no flag. \<open>containerStyle\<close> only styles the outermost view and is read by no
  handler and no derived style; it is not part of the record. The prop \<open>value\<close> is the
  field \<open>value_prop\<close>.
\<close>

record SearchBarProps =
  onCancel :: bool
  onFocus :: bool
  onBlur :: bool
  onSubmitEditing :: bool
  placeholder :: "string option"
  animationDuration :: "real option"
  value_prop :: "string option"
  autoFocus :: "bool option"

subsection \<open>Effects and errors\<close>

datatype effect =
    CallOnChangeText "string option"
  | CallOnCancel
  | CallOnFocus
  | CallOnBlur
  | CallOnSubmitEditing
  | PreventDefault
  | TextInputFocus
  | TextInputBlur
  | StartTiming real real

datatype error = TypeError

subsection \<open>Shared values and the animation scheduler\<close>

record Timing =
  startValue :: real
  toValue :: real
  duration :: real
  elapsed :: real

record SharedValue =
  current :: real
  animation :: "Timing option"

text \<open>\<open>useSharedValue(v)\<close>: a cell holding \<open>v\<close>, with no animation running.\<close>

definition useSharedValue :: "real \<Rightarrow> SharedValue" where
  "useSharedValue v = \<lparr>current = v, animation = None\<rparr>"

text \<open>
  Modelled from the spec: \<open>withTiming\<close> and the scheduler that runs it belong to the
  animation library, which is not in the repository. \<open>withTiming toV dur sv\<close> is the
  assignment \<open>sv.value = withTiming(toV, {duration: dur})\<close>: it starts a transition of the
  cell from its present value towards \<open>toV\<close> over \<open>dur\<close> time-units, and a transition
  that is still running is replaced by it (the last transition wins, values do not stack).
\<close>

definition withTiming :: "real \<Rightarrow> real \<Rightarrow> SharedValue \<Rightarrow> SharedValue" where
  "withTiming toV dur sv =
     sv\<lparr>animation := Some \<lparr>startValue = current sv, toValue = toV, duration = dur, elapsed = 0\<rparr>\<rparr>"

text \<open>
  Modelled from the spec: one frame of the scheduler, \<open>dt\<close> time-units after the previous
  one. A running transition whose duration has passed ends with the cell at its target;
  before that the cell is between start and target, at the fraction the easing curve
  \<open>ease\<close> gives for the share of the duration that has passed. The curve is a parameter:
  the spec fixes only the two ends.
\<close>

definition frame :: "(real \<Rightarrow> real) \<Rightarrow> real \<Rightarrow> SharedValue \<Rightarrow> SharedValue" where
  "frame ease dt sv =
     (case animation sv of
        None \<Rightarrow> sv
      | Some a \<Rightarrow>
          (let e = elapsed a + dt in
           if duration a \<le> e then \<lparr>current = toValue a, animation = None\<rparr>
           else \<lparr>current = startValue a + (toValue a - startValue a) * ease (e / duration a),
                 animation = Some (a\<lparr>elapsed := e\<rparr>)\<rparr>))"

text \<open>
  Modelled from the spec: \<open>interpolate\<close> of the animation library, for the one shape of
  call the component makes (two input points, two output points): the straight line
  through \<open>(x0, y0)\<close> and \<open>(x1, y1)\<close>.
\<close>

definition interpolate :: "real \<Rightarrow> real \<times> real \<Rightarrow> real \<times> real \<Rightarrow> real" where
  "interpolate x inputRange outputRange =
     (case (inputRange, outputRange) of
        ((x0, x1), (y0, y1)) \<Rightarrow>
          if x1 - x0 = 0 then y0 else y0 + (x - x0) / (x1 - x0) * (y1 - y0))"

text \<open>
  \<open>interpolateColor\<close> is kept as the call itself (progress, input range, the two colour
  strings): no claim depends on the colour it computes.
\<close>

datatype color = InterpolateColor real "real \<times> real" "string \<times> string"

subsection \<open>The state of one mounted component\<close>

text \<open>
  \<open>textInputRef\<close> says whether \<open>textInputRef.current\<close> is the text field (it is \<open>null\<close>
  until the field is mounted). \<open>inputHasFocus\<close> and \<open>inputText\<close> are the state of the
  platform's text field: whether it holds the focus, and the text in it. The field is
  uncontrolled (line 143 passes the prop as \<open>defaultValue\<close>), so its text starts as that
  default and then follows what the user types.
\<close>

record SearchBarState =
  containerWidth :: real
  cancelButtonWidth :: real
  isFocused :: SharedValue
  textInputRef :: bool
  inputHasFocus :: bool
  inputText :: string
  effects :: "effect list"

definition MARGIN_LEFT_BUTTON :: real where
  "MARGIN_LEFT_BUTTON = 10"

text \<open>The state after the first render: lines 47, 61, 71, 86 and the mounted field.\<close>

definition initial :: "SearchBarProps \<Rightarrow> SearchBarState" where
  "initial p =
     \<lparr>containerWidth = 0,
      cancelButtonWidth = 0,
      isFocused = useSharedValue 0,
      textInputRef = True,
      inputHasFocus = False,
      inputText = (case value_prop p of None \<Rightarrow> [] | Some s \<Rightarrow> s),
      effects = []\<rparr>"

subsection \<open>Calling functions\<close>

text \<open>
  \<open>invoke f c st\<close> is the call \<open>f(...)\<close> of a value that is a function exactly when the
  flag \<open>f\<close> holds: the call is recorded, or a \<open>TypeError\<close> is raised.
\<close>

definition invoke :: "bool \<Rightarrow> effect \<Rightarrow> SearchBarState \<Rightarrow> error + SearchBarState" where
  "invoke f c st = (if f then Inr (st\<lparr>effects := effects st @ [c]\<rparr>) else Inl TypeError)"

text \<open>Sequencing of statements: an exception ends the handler.\<close>

definition andThen ::
  "error + SearchBarState \<Rightarrow> (SearchBarState \<Rightarrow> error + SearchBarState) \<Rightarrow> error + SearchBarState" where
  "andThen r f = (case r of Inl e \<Rightarrow> Inl e | Inr st \<Rightarrow> f st)"

text \<open>
  The methods \<open>blur()\<close> and \<open>focus()\<close> of the text field: the field loses or takes the
  focus. The platform reports the change back later through the field's \<open>onBlur\<close> or
  \<open>onFocus\<close> event, which is an event of its own (\<open>InputBlur\<close>, \<open>InputFocus\<close> below).
\<close>

definition blur :: "SearchBarState \<Rightarrow> SearchBarState" where
  "blur st = st\<lparr>inputHasFocus := False, effects := effects st @ [TextInputBlur]\<rparr>"

definition focusInput :: "SearchBarState \<Rightarrow> SearchBarState" where
  "focusInput st = st\<lparr>inputHasFocus := True, effects := effects st @ [TextInputFocus]\<rparr>"

subsection \<open>The handlers (lines 49-104)\<close>

definition onPressClear :: "SearchBarProps \<Rightarrow> SearchBarState \<Rightarrow> error + SearchBarState" where
  "onPressClear p st = invoke True (CallOnChangeText None) st"

definition onPressCancel :: "SearchBarProps \<Rightarrow> SearchBarState \<Rightarrow> error + SearchBarState" where
  "onPressCancel p st =
     andThen (invoke True (CallOnChangeText None) st) (\<lambda>st1.
     andThen (if onCancel p then invoke (onCancel p) CallOnCancel st1 else Inr st1) (\<lambda>st2.
     Inr (if textInputRef st2 then blur st2 else st2)))"

definition onLayout :: "real \<Rightarrow> SearchBarState \<Rightarrow> SearchBarState" where
  "onLayout w st = st\<lparr>containerWidth := w\<rparr>"

definition onButtonLayout :: "real \<Rightarrow> SearchBarState \<Rightarrow> SearchBarState" where
  "onButtonLayout w st =
     (if cancelButtonWidth st = 0 then st\<lparr>cancelButtonWidth := w\<rparr> else st)"

definition focus :: "SearchBarState \<Rightarrow> error + SearchBarState" where
  "focus st =
     andThen (Inr (st\<lparr>effects := effects st @ [PreventDefault]\<rparr>)) (\<lambda>st1.
     Inr (if textInputRef st1 then focusInput st1 else st1))"

definition onInputFocus :: "SearchBarProps \<Rightarrow> SearchBarState \<Rightarrow> error + SearchBarState" where
  "onInputFocus p st =
     andThen (if onFocus p then invoke (onFocus p) CallOnFocus st else Inr st) (\<lambda>st1.
     Inr (st1\<lparr>isFocused := withTiming 1 300 (isFocused st1),
              effects := effects st1 @ [StartTiming 1 300]\<rparr>))"

definition onInputBlur :: "SearchBarProps \<Rightarrow> SearchBarState \<Rightarrow> error + SearchBarState" where
  "onInputBlur p st =
     andThen (if onBlur p then invoke (onBlur p) CallOnBlur st else Inr st) (\<lambda>st1.
     Inr (st1\<lparr>isFocused := withTiming 0 300 (isFocused st1),
              effects := effects st1 @ [StartTiming 0 300]\<rparr>))"

subsection \<open>The derived styles and the rendered tree (lines 108-183)\<close>

record AnimatedStyle =
  width :: real
  borderWidth :: real
  borderColor :: color

record WrapperStyle =
  opacity :: real

definition animatedStyle :: "SearchBarState \<Rightarrow> AnimatedStyle" where
  "animatedStyle st =
     \<lparr>width = interpolate (current (isFocused st)) (0, 1)
                (containerWidth st,
                 containerWidth st - cancelButtonWidth st - MARGIN_LEFT_BUTTON),
      borderWidth = current (isFocused st),
      borderColor = InterpolateColor (current (isFocused st)) (0, 1) (''#fffffe'', ''#fff000'')\<rparr>"

definition wrapperStyle :: "SearchBarState \<Rightarrow> WrapperStyle" where
  "wrapperStyle st = \<lparr>opacity = (if containerWidth st \<noteq> 0 then 1 else 0)\<rparr>"

text \<open>JavaScript's truth value of an optional string: \<open>undefined\<close> and \<open>""\<close> are false.\<close>

definition truthy :: "string option \<Rightarrow> bool" where
  "truthy v = (case v of None \<Rightarrow> False | Some s \<Rightarrow> s \<noteq> [])"

text \<open>
  What the component returns, as far as it varies: the two derived styles, the props
  handed to the text field, and whether the clear button is in the tree (line 151). The
  cancel button is always there.
\<close>

record View =
  wrapper :: WrapperStyle
  inputContainer :: AnimatedStyle
  inputPlaceholder :: "string option"
  inputDefaultValue :: "string option"
  inputAutoFocus :: "bool option"
  clearButton :: bool
  cancelButton :: bool

definition render :: "SearchBarProps \<Rightarrow> SearchBarState \<Rightarrow> View" where
  "render p st =
     \<lparr>wrapper = wrapperStyle st,
      inputContainer = animatedStyle st,
      inputPlaceholder = placeholder p,
      inputDefaultValue = value_prop p,
      inputAutoFocus = autoFocus p,
      clearButton = truthy (value_prop p),
      cancelButton = True\<rparr>"

subsection \<open>Events\<close>

text \<open>
  The events the platform delivers to a mounted component, each with the handler the
  rendered tree wires to it:
  \<^item> \<open>Layout w\<close>, \<open>ButtonLayout w\<close>: a layout pass of the container (line 128) or of the
    cancel button (line 167), reporting the width \<open>w\<close>;
  \<^item> \<open>TouchStart\<close>: a touch in the input's region (line 133);
  \<^item> \<open>InputFocus\<close>, \<open>InputBlur\<close>: the text field took or lost the focus (lines 140-141);
  \<^item> \<open>ChangeText t\<close>: the user edited the text to \<open>t\<close>; the field hands it to the host's
    \<open>onChangeText\<close> (line 144);
  \<^item> \<open>SubmitEditing\<close>: the field passes the event to the prop \<open>onSubmitEditing\<close> it was
    given, if it was given one (line 147);
  \<^item> \<open>PressClear\<close>, \<open>PressCancel\<close>: a press of the clear button (line 155), which can
    only happen while the button is in the tree, or of the cancel button (line 168);
  \<^item> \<open>Frame dt\<close>: a frame of the animation scheduler.
\<close>

datatype event =
    Layout real
  | ButtonLayout real
  | TouchStart
  | InputFocus
  | InputBlur
  | ChangeText string
  | SubmitEditing
  | PressClear
  | PressCancel
  | Frame real

fun dispatch ::
  "(real \<Rightarrow> real) \<Rightarrow> SearchBarProps \<Rightarrow> event \<Rightarrow> SearchBarState \<Rightarrow> error + SearchBarState" where
  "dispatch ease p (Layout w) st = Inr (onLayout w st)"
| "dispatch ease p (ButtonLayout w) st = Inr (onButtonLayout w st)"
| "dispatch ease p TouchStart st = focus st"
| "dispatch ease p InputFocus st = onInputFocus p (st\<lparr>inputHasFocus := True\<rparr>)"
| "dispatch ease p InputBlur st = onInputBlur p (st\<lparr>inputHasFocus := False\<rparr>)"
| "dispatch ease p (ChangeText t) st = invoke True (CallOnChangeText (Some t)) (st\<lparr>inputText := t\<rparr>)"
| "dispatch ease p SubmitEditing st =
     (if onSubmitEditing p then invoke (onSubmitEditing p) CallOnSubmitEditing st else Inr st)"
| "dispatch ease p PressClear st =
     (if clearButton (render p st) then onPressClear p st else Inr st)"
| "dispatch ease p PressCancel st = onPressCancel p st"
| "dispatch ease p (Frame dt) st = Inr (st\<lparr>isFocused := frame ease dt (isFocused st)\<rparr>)"

fun run ::
  "(real \<Rightarrow> real) \<Rightarrow> SearchBarProps \<Rightarrow> event list \<Rightarrow> SearchBarState \<Rightarrow> error + SearchBarState" where
  "run ease p [] st = Inr st"
| "run ease p (ev # evs) st = andThen (dispatch ease p ev st) (run ease p evs)"

subsection \<open>Auxiliary definitions for the statements\<close>

text \<open>
  The props of \<open><SearchBar onChangeText={f} />\<close>: only the required callback is passed.
\<close>

definition minimalProps :: SearchBarProps where
  "minimalProps =
     \<lparr>onCancel = False, onFocus = False, onBlur = False, onSubmitEditing = False,
      placeholder = None, animationDuration = None, value_prop = None, autoFocus = None\<rparr>"

text \<open>The time that passes during a sequence of events: the sum of its frames.\<close>

fun frameTime :: "event \<Rightarrow> real" where
  "frameTime (Frame dt) = dt"
| "frameTime ev = 0"

definition framesTotal :: "event list \<Rightarrow> real" where
  "framesTotal evs = sum_list (map frameTime evs)"

text \<open>
  The invariant behind the fixed duration: every transition that was started, and the one
  that is running, lasts 300 time-units.
\<close>

fun fixedTiming :: "effect \<Rightarrow> bool" where
  "fixedTiming (StartTiming t d) = (d = 300)"
| "fixedTiming c = True"

definition fixedDuration :: "SearchBarState \<Rightarrow> bool" where
  "fixedDuration st \<longleftrightarrow>
     list_all fixedTiming (effects st) \<and>
     (case animation (isFocused st) of None \<Rightarrow> True | Some a \<Rightarrow> duration a = 300)"

section \<open>Properties\<close>

subsection \<open>General facts about handlers and runs\<close>

lemmas handler_defs =
  onPressClear_def onPressCancel_def onLayout_def onButtonLayout_def focus_def
  onInputFocus_def onInputBlur_def invoke_def andThen_def blur_def focusInput_def

lemmas eval_defs =
  handler_defs initial_def minimalProps_def useSharedValue_def withTiming_def frame_def
  animatedStyle_def interpolate_def MARGIN_LEFT_BUTTON_def framesTotal_def

text \<open>No event makes a handler raise, whatever the props are.\<close>

lemma dispatch_total: "\<exists>st'. dispatch ease p ev st = Inr st'"
  by (cases ev) (simp_all add: handler_defs)

lemma run_total: "\<exists>st'. run ease p evs st = Inr st'"
proof (induction evs arbitrary: st)
  case Nil
  show ?case by simp
next
  case (Cons ev evs)
  obtain st1 where "dispatch ease p ev st = Inr st1"
    using dispatch_total by blast
  with Cons.IH [of st1] show ?case by (simp add: andThen_def)
qed

lemma run_append:
  "run ease p (xs @ ys) st = andThen (run ease p xs st) (run ease p ys)"
  by (induction xs arbitrary: st) (simp_all add: andThen_def split: sum.splits)

text \<open>
  The reference to the text field is set when the component is mounted and no handler
  assigns it: it is set in every state a mounted component reaches.
\<close>

lemma dispatch_textInputRef:
  assumes "dispatch ease p ev st = Inr st'"
  shows "textInputRef st' = textInputRef st"
  using assms by (cases ev) (auto simp: handler_defs split: if_splits)

lemma run_textInputRef:
  assumes "run ease p evs st = Inr st'"
  shows "textInputRef st' = textInputRef st"
  using assms
proof (induction evs arbitrary: st)
  case Nil
  then show ?case by simp
next
  case (Cons ev evs)
  obtain st1 where d: "dispatch ease p ev st = Inr st1"
    using dispatch_total by blast
  with Cons.prems have "run ease p evs st1 = Inr st'" by (simp add: andThen_def)
  with Cons.IH [of st1] dispatch_textInputRef [OF d] show ?case by simp
qed

lemma reachable_textInputRef:
  assumes "run ease p evs (initial p) = Inr st"
  shows "textInputRef st"
  using run_textInputRef [OF assms] by (simp add: initial_def)

subsection \<open>The clear button\<close>

text \<open>
  Claim C1, as the code has it. Line 151 renders the clear button under the condition
  \<open>value\<close>, the prop: the button is in the tree exactly when the host passed a non-empty
  string as \<open>value\<close>. The text in the field plays no part: with \<open>value\<close> unset or empty
  the button is absent whatever has been typed, and it appears and disappears only as
  the host passes a non-empty \<open>value\<close> or takes it away again.
\<close>

theorem clear_button_follows_value_prop:
  "clearButton (render p st) = (\<exists>s. value_prop p = Some s \<and> s \<noteq> []) \<and>
   clearButton (render p (st\<lparr>inputText := t\<rparr>)) = clearButton (render p st) \<and>
   \<not> clearButton (render (p\<lparr>value_prop := None\<rparr>) st) \<and>
   \<not> clearButton (render (p\<lparr>value_prop := Some []\<rparr>) st) \<and>
   clearButton (render (p\<lparr>value_prop := Some (c # cs)\<rparr>) st)"
  by (simp add: render_def truthy_def split: option.splits)

text \<open>
  Claim C1 as it is written fails: with \<open>value\<close> unset, the user types \<open>abc\<close>. The field
  hands the text to \<open>onChangeText\<close> and holds it, the text is not empty, and the clear
  button is not rendered.
\<close>

theorem typed_text_counterexample:
  "dispatch id minimalProps (ChangeText ''abc'') (initial minimalProps) =
     Inr ((initial minimalProps)\<lparr>inputText := ''abc'',
                                 effects := [CallOnChangeText (Some ''abc'')]\<rparr>) \<and>
   inputText ((initial minimalProps)\<lparr>inputText := ''abc'',
                                 effects := [CallOnChangeText (Some ''abc'')]\<rparr>) \<noteq> [] \<and>
   \<not> clearButton (render minimalProps
        ((initial minimalProps)\<lparr>inputText := ''abc'',
                                 effects := [CallOnChangeText (Some ''abc'')]\<rparr>))"
  by (simp add: invoke_def initial_def minimalProps_def render_def truthy_def)

text \<open>
  Claim C6. A press of the clear button calls \<open>onChangeText\<close> with the absent value,
  once, and that is all: the new state is the old one with this one call appended, so
  \<open>onCancel\<close> is not called, no method of the text field is called, and \<open>isFocused\<close> and
  the focus of the field are what they were.
\<close>

theorem clear_calls_onChangeText_only:
  "onPressClear p st = Inr (st\<lparr>effects := effects st @ [CallOnChangeText None]\<rparr>) \<and>
   (\<exists>st'. onPressClear p st = Inr st' \<and>
      drop (length (effects st)) (effects st') = [CallOnChangeText None] \<and>
      isFocused st' = isFocused st \<and>
      inputHasFocus st' = inputHasFocus st)"
  by (simp add: onPressClear_def invoke_def)

subsection \<open>The cancel button\<close>

text \<open>
  Claim C2. A press of the cancel button on a mounted component (the reference to the
  text field is set, see \<open>reachable_textInputRef\<close>) does three things in this order:
  it calls \<open>onChangeText\<close> with the absent value, it calls \<open>onCancel\<close> if and only if
  the host passed one, and it calls \<open>blur()\<close> on the text field, which loses the focus.
\<close>

theorem cancel_steps_in_order:
  assumes "textInputRef st"
  shows "onPressCancel p st =
    Inr (st\<lparr>inputHasFocus := False,
            effects := effects st @ [CallOnChangeText None]
                        @ (if onCancel p then [CallOnCancel] else []) @ [TextInputBlur]\<rparr>)"
  using assms by (simp add: handler_defs)

theorem cancel_steps_in_order_witness:
  "textInputRef (initial (minimalProps\<lparr>onCancel := True\<rparr>)) \<and>
   onPressCancel (minimalProps\<lparr>onCancel := True\<rparr>) (initial (minimalProps\<lparr>onCancel := True\<rparr>)) =
     Inr ((initial (minimalProps\<lparr>onCancel := True\<rparr>))
            \<lparr>inputHasFocus := False,
             effects := [CallOnChangeText None, CallOnCancel, TextInputBlur]\<rparr>)"
proof -
  have r: "textInputRef (initial (minimalProps\<lparr>onCancel := True\<rparr>))"
    by (simp add: initial_def)
  show ?thesis
    using r cancel_steps_in_order [OF r, of "minimalProps\<lparr>onCancel := True\<rparr>"]
    by (simp add: initial_def minimalProps_def)
qed

text \<open>
  Claim C3, as the code has it. The guard of \<open>onButtonLayout\<close> is that the stored width
  is zero, so the width that is kept is the first one that is not zero: after any
  sequence of layout passes of the cancel button, a width that was not zero before is
  unchanged, and a width that was zero is the first non-zero width reported (zero if
  there is none).
\<close>

theorem cancelButtonWidth_first_nonzero:
  "\<exists>st'. run ease p (map ButtonLayout ws) st = Inr st' \<and>
     cancelButtonWidth st' =
       (if cancelButtonWidth st \<noteq> 0 then cancelButtonWidth st
        else case filter (\<lambda>w. w \<noteq> 0) ws of [] \<Rightarrow> 0 | w # _ \<Rightarrow> w)"
proof (induction ws arbitrary: st)
  case Nil
  show ?case by simp
next
  case (Cons w ws)
  let ?st1 = "onButtonLayout w st"
  from Cons.IH [of ?st1] obtain st' where
    r: "run ease p (map ButtonLayout ws) ?st1 = Inr st'" and
    c: "cancelButtonWidth st' =
       (if cancelButtonWidth ?st1 \<noteq> 0 then cancelButtonWidth ?st1
        else case filter (\<lambda>w. w \<noteq> 0) ws of [] \<Rightarrow> 0 | w # _ \<Rightarrow> w)"
    by blast
  have "run ease p (map ButtonLayout (w # ws)) st = Inr st'"
    using r by (simp add: andThen_def)
  moreover have "cancelButtonWidth st' =
       (if cancelButtonWidth st \<noteq> 0 then cancelButtonWidth st
        else case filter (\<lambda>w. w \<noteq> 0) (w # ws) of [] \<Rightarrow> 0 | w # _ \<Rightarrow> w)"
    using c by (simp add: onButtonLayout_def)
  ultimately show ?case by blast
qed

theorem cancelButtonWidth_first_nonzero_witness:
  "(\<exists>st'. run id minimalProps (map ButtonLayout [80, 90]) (initial minimalProps) = Inr st' \<and>
      cancelButtonWidth st' = 80) \<and>
   (\<exists>st'. run id minimalProps (map ButtonLayout [0, 80, 90]) (initial minimalProps) = Inr st' \<and>
      cancelButtonWidth st' = 80)"
  using cancelButtonWidth_first_nonzero [of id minimalProps "[80, 90]" "initial minimalProps"]
        cancelButtonWidth_first_nonzero [of id minimalProps "[0, 80, 90]" "initial minimalProps"]
  by (simp add: initial_def)

text \<open>
  Claim C3 as it is written fails when the first layout pass reports the width 0: the
  pass stores 0, and the second pass, reporting 90, is not ignored.
\<close>

theorem first_pass_zero_counterexample:
  "run id minimalProps [ButtonLayout 0] (initial minimalProps) =
     Inr ((initial minimalProps)\<lparr>cancelButtonWidth := 0\<rparr>) \<and>
   run id minimalProps [ButtonLayout 0, ButtonLayout 90] (initial minimalProps) =
     Inr ((initial minimalProps)\<lparr>cancelButtonWidth := 90\<rparr>)"
  by (simp add: andThen_def onButtonLayout_def initial_def)

subsection \<open>The derived styles\<close>

text \<open>
  Claim C4. For a focus progress \<open>v\<close> between 0 and 1, the width of the input container
  lies on the straight line from \<open>containerWidth\<close> at \<open>v = 0\<close> to
  \<open>containerWidth - cancelButtonWidth - 10\<close> at \<open>v = 1\<close>.
\<close>

theorem effective_width_linear:
  assumes "current (isFocused st) = v" and "0 \<le> v" and "v \<le> 1"
  shows "width (animatedStyle st) =
           containerWidth st
           + v * ((containerWidth st - cancelButtonWidth st - 10) - containerWidth st) \<and>
         (v = 0 \<longrightarrow> width (animatedStyle st) = containerWidth st) \<and>
         (v = 1 \<longrightarrow> width (animatedStyle st) = containerWidth st - cancelButtonWidth st - 10)"
  using assms by (simp add: animatedStyle_def interpolate_def MARGIN_LEFT_BUTTON_def)

text \<open>Container width 300 and cancel button width 80: 300 at 0, 210 at 1, 255 half way.\<close>

theorem effective_width_linear_witness:
  "width (animatedStyle ((initial minimalProps)
      \<lparr>containerWidth := 300, cancelButtonWidth := 80, isFocused := useSharedValue 0\<rparr>)) = 300 \<and>
   width (animatedStyle ((initial minimalProps)
      \<lparr>containerWidth := 300, cancelButtonWidth := 80, isFocused := useSharedValue 1\<rparr>)) = 210 \<and>
   width (animatedStyle ((initial minimalProps)
      \<lparr>containerWidth := 300, cancelButtonWidth := 80, isFocused := useSharedValue (1 / 2)\<rparr>)) = 255"
  using
    effective_width_linear [of "(initial minimalProps)
      \<lparr>containerWidth := 300, cancelButtonWidth := 80, isFocused := useSharedValue 0\<rparr>" 0]
    effective_width_linear [of "(initial minimalProps)
      \<lparr>containerWidth := 300, cancelButtonWidth := 80, isFocused := useSharedValue 1\<rparr>" 1]
    effective_width_linear [of "(initial minimalProps)
      \<lparr>containerWidth := 300, cancelButtonWidth := 80, isFocused := useSharedValue (1 / 2)\<rparr>" "1 / 2"]
  by (simp add: useSharedValue_def)

text \<open>
  Claim C7. The wrapper has opacity 0 exactly when \<open>containerWidth\<close> is zero, and opacity
  1 otherwise: it is 0 in the state before the first layout pass, and after a layout
  pass of the container it is 1 unless the pass reported the width 0.
\<close>

theorem hidden_until_measured:
  "opacity (wrapperStyle st) = (if containerWidth st = 0 then 0 else 1) \<and>
   opacity (wrapper (render p st)) = (if containerWidth st = 0 then 0 else 1) \<and>
   opacity (wrapperStyle (initial p)) = 0 \<and>
   opacity (wrapperStyle (onLayout w st)) = (if w = 0 then 0 else 1)"
  by (simp add: wrapperStyle_def render_def initial_def onLayout_def)

subsection \<open>Focus and blur\<close>

text \<open>
  Claim C5. On a focus event the handler first calls \<open>onFocus\<close>, if the host passed one,
  and then starts a transition of \<open>isFocused\<close> towards 1 that lasts 300 time-units; on a
  blur event it first calls \<open>onBlur\<close>, if the host passed one, and then starts a
  transition towards 0 of the same duration. The transition starts at the present value
  of the cell.
\<close>

theorem callback_before_animation:
  "onInputFocus p st =
     Inr (st\<lparr>isFocused := \<lparr>current = current (isFocused st),
                            animation = Some \<lparr>startValue = current (isFocused st), toValue = 1,
                                              duration = 300, elapsed = 0\<rparr>\<rparr>,
             effects := effects st @ (if onFocus p then [CallOnFocus] else [])
                         @ [StartTiming 1 300]\<rparr>) \<and>
   onInputBlur p st =
     Inr (st\<lparr>isFocused := \<lparr>current = current (isFocused st),
                            animation = Some \<lparr>startValue = current (isFocused st), toValue = 0,
                                              duration = 300, elapsed = 0\<rparr>\<rparr>,
             effects := effects st @ (if onBlur p then [CallOnBlur] else [])
                         @ [StartTiming 0 300]\<rparr>)"
  by (simp add: handler_defs withTiming_def)

text \<open>
  Claim C9. With an optional callback absent, the handler that would call it completes
  without an error and does not attempt the call: the focus and blur handlers only start
  their transition, the cancel handler records no call of \<open>onCancel\<close>, and a submit event
  changes nothing. No event raises an error, whatever the props are.
\<close>

theorem absent_callbacks_skipped:
  "(\<not> onFocus p \<longrightarrow>
      onInputFocus p st =
        Inr (st\<lparr>isFocused := withTiming 1 300 (isFocused st),
                effects := effects st @ [StartTiming 1 300]\<rparr>)) \<and>
   (\<not> onBlur p \<longrightarrow>
      onInputBlur p st =
        Inr (st\<lparr>isFocused := withTiming 0 300 (isFocused st),
                effects := effects st @ [StartTiming 0 300]\<rparr>)) \<and>
   (\<not> onCancel p \<longrightarrow>
      (\<exists>st'. onPressCancel p st = Inr st' \<and>
         CallOnCancel \<notin> set (drop (length (effects st)) (effects st')))) \<and>
   (\<not> onSubmitEditing p \<longrightarrow> dispatch ease p SubmitEditing st = Inr st) \<and>
   (\<exists>st'. dispatch ease p ev st = Inr st')"
  by (simp add: handler_defs dispatch_total)

theorem absent_callbacks_skipped_witness:
  "\<not> onFocus minimalProps \<and> \<not> onBlur minimalProps \<and> \<not> onCancel minimalProps \<and>
   \<not> onSubmitEditing minimalProps \<and>
   onInputFocus minimalProps (initial minimalProps) =
     Inr ((initial minimalProps)\<lparr>isFocused := withTiming 1 300 (useSharedValue 0),
                                 effects := [StartTiming 1 300]\<rparr>) \<and>
   onInputBlur minimalProps (initial minimalProps) =
     Inr ((initial minimalProps)\<lparr>isFocused := withTiming 0 300 (useSharedValue 0),
                                 effects := [StartTiming 0 300]\<rparr>) \<and>
   onPressCancel minimalProps (initial minimalProps) =
     Inr ((initial minimalProps)\<lparr>inputHasFocus := False,
                                 effects := [CallOnChangeText None, TextInputBlur]\<rparr>) \<and>
   dispatch id minimalProps SubmitEditing (initial minimalProps) = Inr (initial minimalProps)"
proof -
  have h: "\<not> onFocus minimalProps" "\<not> onBlur minimalProps" "\<not> onCancel minimalProps"
    "\<not> onSubmitEditing minimalProps"
    by (simp_all add: minimalProps_def)
  have c: "onPressCancel minimalProps (initial minimalProps) =
     Inr ((initial minimalProps)\<lparr>inputHasFocus := False,
                                 effects := [CallOnChangeText None, TextInputBlur]\<rparr>)"
    by (simp add: handler_defs minimalProps_def initial_def)
  from h c absent_callbacks_skipped [of minimalProps "initial minimalProps" id SubmitEditing]
  show ?thesis by (simp add: initial_def)
qed

subsection \<open>The last transition wins\<close>

text \<open>Events other than focus, blur and frames leave \<open>isFocused\<close> alone.\<close>

lemma dispatch_isFocused_noframe:
  assumes "dispatch ease p ev st = Inr st1"
    and "ev \<noteq> InputFocus" and "ev \<noteq> InputBlur" and "\<forall>dt. ev \<noteq> Frame dt"
  shows "isFocused st1 = isFocused st"
  using assms by (cases ev) (auto simp: handler_defs split: if_splits)

text \<open>A cell with no transition running keeps its value until the next focus or blur.\<close>

lemma run_settled_stays:
  assumes "InputFocus \<notin> set rest" and "InputBlur \<notin> set rest"
    and "animation (isFocused st) = None"
    and "run ease p rest st = Inr st'"
  shows "isFocused st' = isFocused st"
  using assms
proof (induction rest arbitrary: st)
  case Nil
  then show ?case by simp
next
  case (Cons ev rest)
  obtain st1 where d: "dispatch ease p ev st = Inr st1"
    using dispatch_total by blast
  from Cons.prems have ne: "ev \<noteq> InputFocus" "ev \<noteq> InputBlur" by auto
  have same: "isFocused st1 = isFocused st"
  proof (cases "\<exists>dt. ev = Frame dt")
    case True
    then obtain dt where "ev = Frame dt" by blast
    with d Cons.prems(3) show ?thesis by (auto simp: frame_def)
  next
    case False
    with d ne show ?thesis by (simp add: dispatch_isFocused_noframe)
  qed
  from Cons.prems(4) d have r: "run ease p rest st1 = Inr st'"
    by (simp add: andThen_def)
  from Cons.prems have "InputFocus \<notin> set rest" "InputBlur \<notin> set rest" by auto
  with Cons.IH [of st1] same Cons.prems(3) r show ?case by simp
qed

text \<open>
  A running transition that is not superseded ends at its target once the frames that
  follow add up to what is left of its duration.
\<close>

lemma run_in_flight_settles:
  assumes "InputFocus \<notin> set rest" and "InputBlur \<notin> set rest"
    and "animation (isFocused st) = Some a"
    and "elapsed a < duration a"
    and "duration a \<le> elapsed a + framesTotal rest"
    and "run ease p rest st = Inr st'"
  shows "isFocused st' = \<lparr>current = toValue a, animation = None\<rparr>"
  using assms
proof (induction rest arbitrary: st a)
  case Nil
  then show ?case by (simp add: framesTotal_def)
next
  case (Cons ev rest)
  obtain st1 where d: "dispatch ease p ev st = Inr st1"
    using dispatch_total by blast
  from Cons.prems have ne: "ev \<noteq> InputFocus" "ev \<noteq> InputBlur" by auto
  from Cons.prems have nr: "InputFocus \<notin> set rest" "InputBlur \<notin> set rest" by auto
  from Cons.prems(6) d have r: "run ease p rest st1 = Inr st'"
    by (simp add: andThen_def)
  have tot: "framesTotal (ev # rest) = frameTime ev + framesTotal rest"
    by (simp add: framesTotal_def)
  show ?case
  proof (cases "\<exists>dt. ev = Frame dt")
    case True
    then obtain dt where ev: "ev = Frame dt" by blast
    with d have f1: "isFocused st1 = frame ease dt (isFocused st)" by auto
    show ?thesis
    proof (cases "duration a \<le> elapsed a + dt")
      case True
      with f1 Cons.prems(3)
      have fin: "isFocused st1 = \<lparr>current = toValue a, animation = None\<rparr>"
        by (simp add: frame_def)
      then have "animation (isFocused st1) = None" by simp
      from run_settled_stays [OF nr this r] fin show ?thesis by simp
    next
      case False
      let ?a1 = "a\<lparr>elapsed := elapsed a + dt\<rparr>"
      from False f1 Cons.prems(3)
      have a1: "animation (isFocused st1) = Some ?a1"
        by (simp add: frame_def Let_def)
      have "isFocused st' = \<lparr>current = toValue ?a1, animation = None\<rparr>"
      proof (rule Cons.IH [OF nr a1 _ _ r])
        show "elapsed ?a1 < duration ?a1"
          using False by simp
        show "duration ?a1 \<le> elapsed ?a1 + framesTotal rest"
          using Cons.prems(5) tot ev by simp
      qed
      then show ?thesis by simp
    qed
  next
    case False
    with d ne have same: "isFocused st1 = isFocused st"
      by (simp add: dispatch_isFocused_noframe)
    from False have "frameTime ev = 0" by (cases ev) simp_all
    with tot Cons.prems(5) have "duration a \<le> elapsed a + framesTotal rest" by simp
    with Cons.IH [OF nr _ Cons.prems(4) _ r] same Cons.prems(3) show ?thesis by simp
  qed
qed

lemma dispatch_focus_starts:
  "\<exists>st1. dispatch ease p InputFocus st = Inr st1 \<and>
     animation (isFocused st1) =
       Some \<lparr>startValue = current (isFocused st), toValue = 1, duration = 300, elapsed = 0\<rparr>"
  by (simp add: handler_defs withTiming_def)

lemma dispatch_blur_starts:
  "\<exists>st1. dispatch ease p InputBlur st = Inr st1 \<and>
     animation (isFocused st1) =
       Some \<lparr>startValue = current (isFocused st), toValue = 0, duration = 300, elapsed = 0\<rparr>"
  by (simp add: handler_defs withTiming_def)

text \<open>
  Claim C8. Take any sequence of events \<open>pre\<close>, from any state (so a transition may be
  running when it ends), then a focus or a blur event \<open>ev\<close>, then events \<open>rest\<close> without
  focus or blur whose frames add up to at least 300 time-units. The run completes, and
  at its end no transition is running and \<open>isFocused\<close> is the target of \<open>ev\<close>: 1 after a
  focus, with the width \<open>containerWidth - cancelButtonWidth - 10\<close>, and 0 after a blur,
  with the width \<open>containerWidth\<close>. What was running when \<open>ev\<close> arrived has no influence.
\<close>

theorem last_transition_wins:
  assumes "ev = InputFocus \<or> ev = InputBlur"
    and "InputFocus \<notin> set rest" and "InputBlur \<notin> set rest"
    and "300 \<le> framesTotal rest"
  shows "\<exists>st'. run ease p (pre @ ev # rest) st = Inr st' \<and>
           isFocused st' = useSharedValue (if ev = InputFocus then 1 else 0) \<and>
           width (animatedStyle st') =
             (if ev = InputFocus then containerWidth st' - cancelButtonWidth st' - 10
              else containerWidth st')"
proof -
  obtain st0 where pre: "run ease p pre st = Inr st0"
    using run_total by blast
  obtain st' where fin: "run ease p (pre @ ev # rest) st = Inr st'"
    using run_total by blast
  let ?t = "if ev = InputFocus then 1 else 0 :: real"
  let ?a = "\<lparr>startValue = current (isFocused st0), toValue = ?t, duration = 300, elapsed = 0\<rparr>"
  obtain st1 where d: "dispatch ease p ev st0 = Inr st1"
    and a: "animation (isFocused st1) = Some ?a"
    using assms(1) dispatch_focus_starts [of ease p st0] dispatch_blur_starts [of ease p st0]
    by auto
  from fin pre d have r: "run ease p rest st1 = Inr st'"
    by (simp add: run_append andThen_def)
  have "isFocused st' = \<lparr>current = toValue ?a, animation = None\<rparr>"
    by (rule run_in_flight_settles [OF assms(2) assms(3) a _ _ r]) (use assms(4) in simp_all)
  then have f: "isFocused st' = useSharedValue ?t"
    by (simp add: useSharedValue_def)
  then have "width (animatedStyle st') =
             (if ev = InputFocus then containerWidth st' - cancelButtonWidth st' - 10
              else containerWidth st')"
    by (simp add: animatedStyle_def interpolate_def useSharedValue_def MARGIN_LEFT_BUTTON_def)
  with fin f show ?thesis by simp
qed

text \<open>
  A blur that arrives 120 time-units into a focus transition, with container width 300
  at the end: \<open>isFocused\<close> settles at 0 and the width is 300.
\<close>

theorem last_transition_wins_witness:
  "(InputBlur = InputFocus \<or> InputBlur = InputBlur) \<and>
   InputFocus \<notin> set [Frame 200, Layout 300, Frame 100] \<and>
   InputBlur \<notin> set [Frame 200, Layout 300, Frame 100] \<and>
   300 \<le> framesTotal [Frame 200, Layout 300, Frame 100] \<and>
   (\<exists>st'. run id minimalProps
             ([Layout 320, ButtonLayout 80, InputFocus, Frame 120]
                @ InputBlur # [Frame 200, Layout 300, Frame 100])
             (initial minimalProps) = Inr st' \<and>
          isFocused st' = useSharedValue 0 \<and> width (animatedStyle st') = 300)"
proof -
  have h1: "InputBlur = InputFocus \<or> InputBlur = InputBlur" by simp
  have h2: "InputFocus \<notin> set [Frame 200, Layout 300, Frame 100]" by simp
  have h3: "InputBlur \<notin> set [Frame 200, Layout 300, Frame 100]" by simp
  have h4: "300 \<le> framesTotal [Frame 200, Layout 300, Frame 100]"
    by (simp add: framesTotal_def)
  from last_transition_wins [OF h1 h2 h3 h4, of id minimalProps
      "[Layout 320, ButtonLayout 80, InputFocus, Frame 120]" "initial minimalProps"]
  obtain st' where r: "run id minimalProps
             ([Layout 320, ButtonLayout 80, InputFocus, Frame 120]
                @ InputBlur # [Frame 200, Layout 300, Frame 100])
             (initial minimalProps) = Inr st'"
    and f: "isFocused st' = useSharedValue 0"
    and w: "width (animatedStyle st') = containerWidth st'"
    by auto
  from r have "containerWidth st' = 300"
    by (auto simp: eval_defs Let_def)
  with h1 h2 h3 h4 r f w show ?thesis by simp
qed

subsection \<open>The prop animationDuration\<close>

lemma dispatch_animationDuration:
  "dispatch ease (p\<lparr>animationDuration := d\<rparr>) ev st = dispatch ease p ev st"
  by (cases ev) (simp_all add: handler_defs render_def)

lemma run_animationDuration:
  "run ease (p\<lparr>animationDuration := d\<rparr>) evs st = run ease p evs st"
  by (induction evs arbitrary: st)
     (simp_all add: dispatch_animationDuration andThen_def split: sum.splits)

lemma dispatch_fixedDuration:
  assumes "fixedDuration st" and "dispatch ease p ev st = Inr st'"
  shows "fixedDuration st'"
  using assms
  by (cases ev)
     (auto simp: handler_defs fixedDuration_def withTiming_def frame_def Let_def
           split: if_splits option.splits)

lemma run_fixedDuration:
  assumes "fixedDuration st" and "run ease p evs st = Inr st'"
  shows "fixedDuration st'"
  using assms
proof (induction evs arbitrary: st)
  case Nil
  then show ?case by simp
next
  case (Cons ev evs)
  obtain st1 where d: "dispatch ease p ev st = Inr st1"
    using dispatch_total by blast
  with Cons.prems(2) have "run ease p evs st1 = Inr st'" by (simp add: andThen_def)
  moreover from Cons.prems(1) d have "fixedDuration st1" by (rule dispatch_fixedDuration)
  ultimately show ?case by (rule Cons.IH [rotated])
qed

lemma fixedTiming_StartTiming:
  assumes "list_all fixedTiming cs" and "StartTiming t d \<in> set cs"
  shows "d = 300"
  using assms by (induction cs) auto

text \<open>
  Claim C10. The component does not read \<open>animationDuration\<close>: two props that differ
  only in it give the same initial state, the same run on every sequence of events (the
  same calls of the host's callbacks, the same shared values) and the same rendered
  tree. Every transition a run starts, and the one running at its end, lasts 300
  time-units.
\<close>

theorem animationDuration_ignored:
  "initial (p\<lparr>animationDuration := d\<rparr>) = initial p \<and>
   run ease (p\<lparr>animationDuration := d\<rparr>) evs st = run ease p evs st \<and>
   render (p\<lparr>animationDuration := d\<rparr>) st = render p st \<and>
   (\<exists>st'. run ease p evs (initial p) = Inr st' \<and>
      (\<forall>t dur. StartTiming t dur \<in> set (effects st') \<longrightarrow> dur = 300) \<and>
      (\<forall>a. animation (isFocused st') = Some a \<longrightarrow> duration a = 300))"
proof -
  obtain st' where r: "run ease p evs (initial p) = Inr st'"
    using run_total by blast
  have "fixedDuration (initial p)"
    by (simp add: fixedDuration_def initial_def useSharedValue_def)
  from run_fixedDuration [OF this r]
  have l: "list_all fixedTiming (effects st')"
    and a: "\<forall>a. animation (isFocused st') = Some a \<longrightarrow> duration a = 300"
    by (simp_all add: fixedDuration_def split: option.splits)
  from l have "\<forall>t dur. StartTiming t dur \<in> set (effects st') \<longrightarrow> dur = 300"
    using fixedTiming_StartTiming by blast
  with r a show ?thesis
    by (simp add: run_animationDuration initial_def render_def)
qed

text \<open>
  A host that asks for a duration of 1000 gets the run of a host that asks for none:
  focus, a frame, blur start two transitions of 300 time-units.
\<close>

theorem animationDuration_ignored_witness:
  "run id (minimalProps\<lparr>animationDuration := Some 1000\<rparr>) [InputFocus, Frame 100, InputBlur]
     (initial (minimalProps\<lparr>animationDuration := Some 1000\<rparr>)) =
   run id minimalProps [InputFocus, Frame 100, InputBlur] (initial minimalProps) \<and>
   (\<exists>st'. run id minimalProps [InputFocus, Frame 100, InputBlur] (initial minimalProps) = Inr st' \<and>
      effects st' = [StartTiming 1 300, StartTiming 0 300] \<and>
      StartTiming 1 300 \<in> set (effects st') \<and>
      (\<exists>a. animation (isFocused st') = Some a \<and> duration a = 300))"
proof -
  from animationDuration_ignored [where p = minimalProps and d = "Some 1000" and ease = id
      and evs = "[InputFocus, Frame 100, InputBlur]" and st = "initial minimalProps"]
  obtain st' where
    e: "run id (minimalProps\<lparr>animationDuration := Some 1000\<rparr>) [InputFocus, Frame 100, InputBlur]
          (initial (minimalProps\<lparr>animationDuration := Some 1000\<rparr>)) =
        run id minimalProps [InputFocus, Frame 100, InputBlur] (initial minimalProps)"
    and r: "run id minimalProps [InputFocus, Frame 100, InputBlur] (initial minimalProps) = Inr st'"
    and a: "\<forall>a. animation (isFocused st') = Some a \<longrightarrow> duration a = 300"
    by auto
  from r have eff: "effects st' = [StartTiming 1 300, StartTiming 0 300]"
    and an: "animation (isFocused st') \<noteq> None"
    by (auto simp: eval_defs Let_def)
  from an a have "\<exists>a. animation (isFocused st') = Some a \<and> duration a = 300" by auto
  with e r eff show ?thesis by simp
qed

end
